theory Spec2Isabelle
  imports Main "HOL-Library.Sublist" "HOL-Library.Word"
begin

section \<open>Errors\<close>

text \<open>
  A Go \<open>error\<close> value is modelled by its message; the \<open>nil\<close> error is \<open>None\<close> of
  \<open>error option\<close>, and a function returning \<open>(T, error)\<close> returns \<open>error + T\<close>.
\<close>

datatype error = Error string

section \<open>The engine availability guard (\<open>ensureDockerIsAvailable\<close>)\<close>

text \<open>
  The guard talks to three things outside the program: the platform name
  (\<open>runtime.GOOS\<close>), the engine's listing call and the launcher process. They are the
  fields of \<open>host\<close>: \<open>ContainerList h k\<close> is the error returned by the listing call
  number \<open>k\<close> of the run (the first call is number 0), \<open>execCommandRun h\<close> the error
  of \<open>execCommand("open", "-a", "Docker").Run()\<close>.
  What the guard does to the outside world is recorded in a \<open>trace\<close>: the number of
  listing calls made so far, every sleep (in seconds), the number of launcher runs and
  the lines printed on the console.
\<close>

record host =
  GOOS :: string
  ContainerList :: "nat \<Rightarrow> error option"
  execCommandRun :: "error option"

record trace =
  listCalls :: nat
  sleeps :: "int list"
  launches :: nat
  printed :: "string list"

definition maxRetries :: int where
  "maxRetries = 12"

definition sleepDuration :: int where
  "sleepDuration = 5"

definition unableToStart :: error where
  "unableToStart = Error ''error: unable to start Docker for Mac''"

text \<open>
  The loop \<open>for retries <= maxRetries { ... }\<close>. Its state is the counter, the variable
  \<open>err\<close> of the enclosing function (returned after the loop) and the trace. The two
  \<open>return\<close> statements of the body end the function with their value.
\<close>

function retryLoop :: "host \<Rightarrow> int \<Rightarrow> int \<Rightarrow> int \<Rightarrow> error option \<Rightarrow> trace \<Rightarrow> error option \<times> trace" where
  "retryLoop h maxR sleepD retries err t =
     (if retries \<le> maxR then
        (if retries + 1 = maxR then
           (Some unableToStart,
            t\<lparr>printed := printed t @
                 [''Restarting Docker is taking too long. We seem to have hit an error'']\<rparr>)
         else
           (if ContainerList h (listCalls t) \<noteq> None then
              (ContainerList h (listCalls t),
               t\<lparr>sleeps := sleeps t @ [sleepD], listCalls := Suc (listCalls t)\<rparr>)
            else
              retryLoop h maxR sleepD (retries + 1) (ContainerList h (listCalls t))
                (t\<lparr>sleeps := sleeps t @ [sleepD], listCalls := Suc (listCalls t)\<rparr>)))
      else (err, t))"
  by pat_completeness auto
termination
  by (relation "measure (\<lambda>(h, maxR, sleepD, retries, err, t). nat (maxR + 1 - retries))") auto

declare retryLoop.simps [simp del]

definition ensureDockerIsAvailable :: "host \<Rightarrow> error option \<times> trace" where
  "ensureDockerIsAvailable h =
     (let err = ContainerList h 0;
          t = \<lparr>listCalls = 1, sleeps = [], launches = 0, printed = []\<rparr>
      in if err \<noteq> None then
           (if GOOS h = ''darwin'' then
              (let t1 = t\<lparr>printed := printed t @
                           [''Docker doesn't appear to be running. Trying to start Docker.''],
                         launches := 1\<rparr>
               in if execCommandRun h \<noteq> None then (Some unableToStart, t1)
                  else retryLoop h maxRetries sleepDuration 0 (execCommandRun h) t1)
            else (err, t))
         else (err, t))"

text \<open>A Mac whose engine is down at the first listing call and up at every later one.\<close>

definition macUpAfterLaunch :: host where
  "macUpAfterLaunch =
     \<lparr>GOOS = ''darwin'',
      ContainerList = (\<lambda>k. if k = 0 then Some (Error ''Cannot connect to the Docker daemon'') else None),
      execCommandRun = None\<rparr>"

text \<open>A Mac whose engine never answers.\<close>

definition macNeverUp :: host where
  "macNeverUp =
     \<lparr>GOOS = ''darwin'',
      ContainerList = (\<lambda>k. Some (Error ''Cannot connect to the Docker daemon'')),
      execCommandRun = None\<rparr>"

section \<open>Strings and paths\<close>

text \<open>
  \<open>strings.Contains\<close>, \<open>strings.Join\<close> and \<open>filepath.Join\<close> of the Go library, the last
  one for a Unix host (separator \<open>/\<close>). \<open>filepath.Join\<close> drops leading empty elements,
  joins the rest with the separator and cleans the result: \<open>Clean\<close> removes empty and
  \<open>.\<close> elements, lets a \<open>..\<close> element remove the element before it, drops a \<open>..\<close>
  that would climb above the root of a rooted path and keeps it at the start of a
  relative one. \<open>cleanElems\<close> works on the elements between the slashes: \<open>out\<close> is the
  output written so far.
\<close>

fun strings_Contains :: "string \<Rightarrow> string \<Rightarrow> bool" where
  "strings_Contains [] substr = (substr = [])"
| "strings_Contains (c # cs) substr = (prefix substr (c # cs) \<or> strings_Contains cs substr)"

fun strings_Join :: "string list \<Rightarrow> string \<Rightarrow> string" where
  "strings_Join [] sep = []"
| "strings_Join [e] sep = e"
| "strings_Join (e # es) sep = e @ sep @ strings_Join es sep"

fun splitSlash :: "string \<Rightarrow> string list" where
  "splitSlash [] = [[]]"
| "splitSlash (c # cs) =
     (if c = CHR ''/'' then [] # splitSlash cs
      else (case splitSlash cs of [] \<Rightarrow> [[c]] | e # es \<Rightarrow> (c # e) # es))"

fun cleanElems :: "bool \<Rightarrow> string list \<Rightarrow> string list \<Rightarrow> string list" where
  "cleanElems rooted out [] = out"
| "cleanElems rooted out (e # es) =
     (if e = [] \<or> e = ''.'' then cleanElems rooted out es
      else if e = ''..'' then
        (if out \<noteq> [] \<and> last out \<noteq> ''..'' then cleanElems rooted (butlast out) es
         else if \<not> rooted then cleanElems rooted (out @ [''..'']) es
         else cleanElems rooted out es)
      else cleanElems rooted (out @ [e]) es)"

definition Clean :: "string \<Rightarrow> string" where
  "Clean path =
     (if path = [] then ''.''
      else (let rooted = (hd path = CHR ''/'');
                out = cleanElems rooted [] (splitSlash path);
                buf = (if rooted then ''/'' else []) @ strings_Join out ''/''
            in if buf = [] then ''.'' else buf))"

definition filepath_Join :: "string list \<Rightarrow> string" where
  "filepath_Join elem =
     (case dropWhile (\<lambda>e. e = []) elem of
        [] \<Rightarrow> []
      | e # es \<Rightarrow> Clean (strings_Join (e # es) ''/''))"

section \<open>The site: settings, mounts, container configurations\<close>

text \<open>
  \<open>settings\<close> holds the fields of \<open>s.Settings\<close> that the functions below read (the same
  values that \<open>s.settings.Get\<close>, \<open>GetBool\<close> and \<open>GetInt\<close> return in \<open>WPCli\<close>).
  The field \<open>Type\<close> of \<open>mount.Mount\<close> is \<open>MountType\<close> here and the field \<open>Name\<close> of
  \<open>docker.ContainerConfig\<close> is \<open>ContainerName\<close>, since \<open>Type\<close> and \<open>Name\<close> are fields
  of the settings.
\<close>

record settings =
  Name :: string
  Type :: string
  SiteDirectory :: string
  WorkingDirectory :: string
  IsNamedSite :: bool
  SiteDomain :: string
  PHP :: string
  Environment :: string
  AutomaticLogin :: bool
  WPDebug :: bool
  ScriptDebug :: bool
  UpdateInterval :: int

datatype mountType = TypeBind | TypeVolume | TypeTmpfs | TypeNamedPipe | TypeCluster

record mount =
  MountType :: mountType
  Source :: string
  Target :: string

record mountPoint =
  Destination :: string

record containerConfig =
  ContainerName :: string
  Image :: string
  NetworkName :: string
  HostName :: string
  Command :: "string list"
  Env :: "string list"
  Labels :: "string \<rightharpoonup> string"
  Volumes :: "mount list"

text \<open>
  A \<open>site\<close> is the receiver \<open>s\<close>: its settings, and what the methods and packages that
  are not part of these files answer during the run. Each of them is a parameter:
  \<^item> \<open>DefaultType\<close>: the package constant of that name;
  \<^item> \<open>isUsingSQLite\<close>, \<open>GetSiteLink\<close>: the methods of \<open>s\<close>, which may read the settings
    in force when they are called;
  \<^item> \<open>MkdirAll\<close>: the error of \<open>os.MkdirAll(path, 0750)\<close>;
  \<^item> \<open>OverrideType\<close>: \<open>s.settings.OverrideType\<close>, an error or the settings it leaves;
  \<^item> \<open>ContainerGetMounts\<close>, \<open>EnsureImage\<close>, \<open>ContainerRunAndClean\<close>,
    \<open>EnsureNetwork\<close>: the methods of the engine client (the network id and the
    \<open>created\<close> flag of \<open>EnsureNetwork\<close> are discarded by the caller);
  \<^item> \<open>getDirectories\<close>, \<open>getDatabaseContainer\<close>, \<open>startContainer\<close>,
    \<open>verifyDatabase\<close>: the other methods of \<open>s\<close> that \<open>startWordPress\<close> calls.
\<close>

record site =
  Settings :: settings
  DefaultType :: string
  isUsingSQLite :: "settings \<Rightarrow> error + bool"
  GetSiteLink :: "settings \<Rightarrow> error + string"
  MkdirAll :: "string \<Rightarrow> error option"
  OverrideType :: "settings \<Rightarrow> string \<Rightarrow> error + settings"
  ContainerGetMounts :: "string \<Rightarrow> mountPoint list"
  EnsureImage :: "string \<Rightarrow> int \<Rightarrow> error option"
  ContainerRunAndClean :: "containerConfig \<Rightarrow> bool \<Rightarrow> 64 word \<times> string \<times> error option"
  EnsureNetwork :: "string \<Rightarrow> error option"
  getDirectories :: "error + string \<times> string"
  getDatabaseContainer :: "string \<Rightarrow> containerConfig list \<Rightarrow> containerConfig list"
  startContainer :: "containerConfig \<Rightarrow> bool \<Rightarrow> bool \<Rightarrow> error option"
  verifyDatabase :: "error option"

subsection \<open>\<open>getWordPressDirectory\<close>\<close>

definition getWordPressDirectory :: "site \<Rightarrow> error + string" where
  "getWordPressDirectory s =
     (case GetSiteLink s (Settings s) of
        Inl err \<Rightarrow> Inl err
      | Inr siteLink \<Rightarrow>
          (let wordPressDirectory =
                 (if \<not> IsNamedSite (Settings s) \<or> siteLink \<noteq> [] then
                    (if Type (Settings s) \<noteq> DefaultType s
                     then filepath_Join [WorkingDirectory (Settings s), ''wordpress'']
                     else WorkingDirectory (Settings s))
                  else filepath_Join [SiteDirectory (Settings s), ''wordpress''])
           in case MkdirAll s wordPressDirectory of
                Some err \<Rightarrow> Inl err
              | None \<Rightarrow> Inr wordPressDirectory))"

subsection \<open>\<open>getWordPressMounts\<close>\<close>

text \<open>
  The function returns the mount list together with the error, also when it fails (the
  list built so far). The two \<open>if\<close> blocks run one after the other; the first may
  return.
\<close>

definition getWordPressMounts :: "site \<Rightarrow> string \<Rightarrow> mount list \<times> error option" where
  "getWordPressMounts s appDir =
     (let appVolumes =
            [\<lparr>MountType = TypeBind, Source = appDir, Target = ''/var/www/html''\<rparr>,
             \<lparr>MountType = TypeBind, Source = SiteDirectory (Settings s), Target = ''/Site''\<rparr>];
          wpContentDir = ''/var/www/html/wp-content'';
          afterPlugin =
            (if Type (Settings s) = ''plugin'' then
               (case MkdirAll s (filepath_Join [appDir, ''wp-content'', ''plugins'', Name (Settings s)]) of
                  Some err \<Rightarrow> Inl (appVolumes, Some err)
                | None \<Rightarrow>
                    Inr (appVolumes @
                      [\<lparr>MountType = TypeBind, Source = WorkingDirectory (Settings s),
                        Target = filepath_Join [wpContentDir, ''plugins'', Name (Settings s)]\<rparr>]))
             else Inr appVolumes)
      in case afterPlugin of
           Inl returned \<Rightarrow> returned
         | Inr appVolumes1 \<Rightarrow>
             (if Type (Settings s) = ''theme'' then
                (case MkdirAll s (filepath_Join [appDir, ''wp-content'', ''themes'', Name (Settings s)]) of
                   Some err \<Rightarrow> (appVolumes1, Some err)
                 | None \<Rightarrow>
                     (appVolumes1 @
                        [\<lparr>MountType = TypeBind, Source = WorkingDirectory (Settings s),
                          Target = filepath_Join [wpContentDir, ''themes'', Name (Settings s)]\<rparr>],
                      None))
              else (appVolumes1, None)))"

subsection \<open>\<open>getWordPressContainer\<close>\<close>

text \<open>
  The function has no error result: when \<open>s.isUsingSQLite()\<close> fails it returns the list
  it was given. Otherwise it appends the application container to it. In \<open>extraConfig\<close>
  the single quote before and after the environment name is written \<open>CHR 0x27\<close>.
\<close>

definition getWordPressContainer :: "site \<Rightarrow> mount list \<Rightarrow> containerConfig list \<Rightarrow> containerConfig list" where
  "getWordPressContainer s appVolumes appContainers =
     (let hostRule = ''Host(`'' @ SiteDomain (Settings s) @ ''`)'';
          envVars = [''IS_KANA_ENVIRONMENT=true'']
      in case isUsingSQLite s (Settings s) of
           Inl err \<Rightarrow> appContainers
         | Inr usingSQLite \<Rightarrow>
             (let envVars1 =
                    (if usingSQLite then envVars @ [''KANA_SQLITE=true'']
                     else envVars @
                       [''WORDPRESS_DB_HOST=kana-'' @ Name (Settings s) @ ''-database'',
                        ''WORDPRESS_DB_USER=wordpress'',
                        ''WORDPRESS_DB_PASSWORD=wordpress'',
                        ''WORDPRESS_DB_NAME=wordpress'',
                        ''WORDPRESS_ADMIN_USER=admin'']);
                  wordPressContainer =
                    \<lparr>ContainerName = ''kana-'' @ Name (Settings s) @ ''-wordpress'',
                     Image = ''wordpress:php'' @ PHP (Settings s),
                     NetworkName = ''kana'',
                     HostName = ''kana-'' @ Name (Settings s) @ ''-wordpress'',
                     Command = [],
                     Env = envVars1,
                     Labels = Map.empty
                       (''traefik.enable'' \<mapsto> ''true'',
                        ''kana.type'' \<mapsto> ''wordpress'',
                        ''traefik.http.routers.wordpress-'' @ Name (Settings s) @ ''-http.entrypoints'' \<mapsto> ''web'',
                        ''traefik.http.routers.wordpress-'' @ Name (Settings s) @ ''-http.rule'' \<mapsto> hostRule,
                        ''traefik.http.routers.wordpress-'' @ Name (Settings s) @ ''.entrypoints'' \<mapsto> ''websecure'',
                        ''traefik.http.routers.wordpress-'' @ Name (Settings s) @ ''.rule'' \<mapsto> hostRule,
                        ''traefik.http.routers.wordpress-'' @ Name (Settings s) @ ''.tls'' \<mapsto> ''true'',
                        ''kana.site'' \<mapsto> Name (Settings s)),
                     Volumes = appVolumes\<rparr>;
                  wordPressContainer1 =
                    (if AutomaticLogin (Settings s)
                     then wordPressContainer\<lparr>Env := Env wordPressContainer @ [''KANA_ADMIN_LOGIN=true'']\<rparr>
                     else wordPressContainer);
                  wordPressContainer2 =
                    (if WPDebug (Settings s)
                     then wordPressContainer1\<lparr>Env := Env wordPressContainer1 @ [''WORDPRESS_DEBUG=1'']\<rparr>
                     else wordPressContainer1);
                  extraConfig =
                    ''WORDPRESS_CONFIG_EXTRA=define( 'WP_ENVIRONMENT_TYPE', '' @ [CHR 0x27] @
                    Environment (Settings s) @ [CHR 0x27] @ '' );'';
                  extraConfig1 =
                    (if ScriptDebug (Settings s)
                     then extraConfig @ ''define( 'SCRIPT_DEBUG', true );''
                     else extraConfig);
                  wordPressContainer3 =
                    wordPressContainer2\<lparr>Env := Env wordPressContainer2 @ [extraConfig1]\<rparr>
              in appContainers @ [wordPressContainer3]))"

subsection \<open>\<open>getWordPressContainers\<close>\<close>

definition getWordPressContainers :: "site \<Rightarrow> string list" where
  "getWordPressContainers s =
     [''kana-'' @ Name (Settings s) @ ''-database'',
      ''kana-'' @ Name (Settings s) @ ''-wordpress'',
      ''kana-'' @ Name (Settings s) @ ''-phpmyadmin'',
      ''kana-'' @ Name (Settings s) @ ''-mailpit'']"

subsection \<open>\<open>WPCli\<close>\<close>

text \<open>
  The loop over the mounts of the running application container: a mount below the
  plugin or theme directory overrides the type in the settings; a failed override ends
  \<open>WPCli\<close>.
\<close>

fun overrideTypes :: "site \<Rightarrow> mountPoint list \<Rightarrow> error + site" where
  "overrideTypes s [] = Inr s"
| "overrideTypes s (m # mounts) =
     (case (if strings_Contains (Destination m) ''/var/www/html/wp-content/plugins/''
            then (case OverrideType s (Settings s) ''plugin'' of
                    Inl err \<Rightarrow> Inl err
                  | Inr st \<Rightarrow> Inr (s\<lparr>Settings := st\<rparr>))
            else Inr s) of
        Inl err \<Rightarrow> Inl err
      | Inr s1 \<Rightarrow>
          (case (if strings_Contains (Destination m) ''/var/www/html/wp-content/themes/''
                 then (case OverrideType s1 (Settings s1) ''theme'' of
                         Inl err \<Rightarrow> Inl err
                       | Inr st \<Rightarrow> Inr (s1\<lparr>Settings := st\<rparr>))
                 else Inr s1) of
             Inl err \<Rightarrow> Inl err
           | Inr s2 \<Rightarrow> overrideTypes s2 mounts))"

text \<open>
  \<open>WPCli\<close> up to the call of \<open>ContainerRunAndClean\<close>: every \<open>return\<close> of this part is
  \<open>return 1, "", err\<close>, so the part is the function \<open>WPCliContainer\<close>, giving that
  error or the container configuration handed to \<open>ContainerRunAndClean\<close>.
\<close>

definition WPCliContainer :: "site \<Rightarrow> string list \<Rightarrow> error + containerConfig" where
  "WPCliContainer s0 command =
     (case overrideTypes s0 (ContainerGetMounts s0 (''kana-'' @ Name (Settings s0) @ ''-wordpress'')) of
        Inl err \<Rightarrow> Inl err
      | Inr s \<Rightarrow>
     (case getWordPressDirectory s of
        Inl err \<Rightarrow> Inl err
      | Inr wordPressDirectory \<Rightarrow>
     (case getWordPressMounts s wordPressDirectory of
        (appVolumes, Some err) \<Rightarrow> Inl err
      | (appVolumes, None) \<Rightarrow>
     (let fullCommand = [''wp'', ''--path=/var/www/html''] @ command;
          envVars = [''IS_KANA_ENVIRONMENT=true'']
      in case isUsingSQLite s (Settings s) of
           Inl err \<Rightarrow> Inl err
         | Inr usingSQLite \<Rightarrow>
             (let envVars1 =
                    (if usingSQLite then envVars @ [''KANA_SQLITE=true'']
                     else envVars @
                       [''WORDPRESS_DB_HOST=kana-'' @ Name (Settings s) @ ''-database'',
                        ''WORDPRESS_DB_USER=wordpress'',
                        ''WORDPRESS_DB_PASSWORD=wordpress'',
                        ''WORDPRESS_DB_NAME=wordpress'',
                        ''WORDPRESS_ADMIN_USER=admin'']);
                  container =
                    \<lparr>ContainerName = ''kana-'' @ Name (Settings s) @ ''-wordpress_cli'',
                     Image = ''wordpress:cli-php'' @ PHP (Settings s),
                     NetworkName = ''kana'',
                     HostName = ''kana-'' @ Name (Settings s) @ ''-wordpress_cli'',
                     Command = fullCommand,
                     Env = envVars1,
                     Labels = Map.empty(''kana.site'' \<mapsto> Name (Settings s)),
                     Volumes = appVolumes\<rparr>;
                  container1 =
                    (if AutomaticLogin (Settings s)
                     then container\<lparr>Env := Env container @ [''KANA_ADMIN_LOGIN=true'']\<rparr>
                     else container)
              in case EnsureImage s (Image container1) (UpdateInterval (Settings s)) of
                   Some err \<Rightarrow> Inl err
                 | None \<Rightarrow> Inr container1)))))"

definition WPCli :: "site \<Rightarrow> string list \<Rightarrow> bool \<Rightarrow> 64 word \<times> string \<times> error option" where
  "WPCli s command interactive =
     (case WPCliContainer s command of
        Inl err \<Rightarrow> (1, [], Some err)
      | Inr container \<Rightarrow>
          (case ContainerRunAndClean s container interactive of
             (code, output, Some err) \<Rightarrow> (code, [], Some err)
           | (code, output, None) \<Rightarrow> (code, output, None)))"

subsection \<open>\<open>startWordPress\<close>\<close>

text \<open>
  The loop that starts the containers stops at the first error. Beside the error,
  the model returns the containers that were started, in the order of the calls.
  Removing a \<open>wp-config.php\<close> left in the application directory changes no value the
  function computes and is not part of the model.
\<close>

fun startContainers :: "site \<Rightarrow> containerConfig list \<Rightarrow> containerConfig list \<Rightarrow> error option \<times> containerConfig list" where
  "startContainers s started [] = (None, started)"
| "startContainers s started (c # cs) =
     (case startContainer s c True True of
        Some err \<Rightarrow> (Some err, started)
      | None \<Rightarrow> startContainers s (started @ [c]) cs)"

definition startWordPress :: "site \<Rightarrow> error option \<times> containerConfig list" where
  "startWordPress s =
     (case EnsureNetwork s ''kana'' of
        Some err \<Rightarrow> (Some err, [])
      | None \<Rightarrow>
     (case getDirectories s of
        Inl err \<Rightarrow> (Some err, [])
      | Inr (appDir, databaseDir) \<Rightarrow>
     (case getWordPressMounts s appDir of
        (appVolumes, Some err) \<Rightarrow> (Some err, [])
      | (appVolumes, None) \<Rightarrow>
     (let appContainers = getDatabaseContainer s databaseDir [];
          appContainers1 = getWordPressContainer s appVolumes appContainers
      in case startContainers s [] appContainers1 of
           (Some err, started) \<Rightarrow> (Some err, started)
         | (None, started) \<Rightarrow> (verifyDatabase s, started)))))"

subsection \<open>\<open>stopWordPress\<close>\<close>

text \<open>
  The engine client, for \<open>ContainerStop\<close>: the names of the containers that exist, the
  error the engine answers when asked about a name (a failure of the communication
  with it), and the names \<open>ContainerStop\<close> has been called with.
\<close>

record dockerClient =
  existing :: "string list"
  engineError :: "string \<Rightarrow> error option"
  stopCalls :: "string list"

text \<open>
  Modelled from the spec: \<open>ContainerStop\<close> of the engine client, which is not among the
  source files. The spec: "\<open>Stop(containerName) -> err\<close> / \<open>Remove(containerName) -> err\<close>:
  idempotent --- absence of the target container is not an error", "engine communication
  errors propagate as-is", "not found conditions on stop/remove are swallowed, not
  propagated"; \<open>stopWordPress\<close> is documented as "destroying the containers when they
  close". The first result of \<open>ContainerStop\<close> is discarded by its caller and is left out.
\<close>

definition ContainerStop :: "dockerClient \<Rightarrow> string \<Rightarrow> error option \<times> dockerClient" where
  "ContainerStop d containerName =
     (let d1 = d\<lparr>stopCalls := stopCalls d @ [containerName]\<rparr>
      in case engineError d containerName of
           Some err \<Rightarrow> (Some err, d1)
         | None \<Rightarrow>
             (if containerName \<in> set (existing d)
              then (None, d1\<lparr>existing := removeAll containerName (existing d)\<rparr>)
              else (None, d1)))"

fun stopContainers :: "dockerClient \<Rightarrow> string list \<Rightarrow> error option \<times> dockerClient" where
  "stopContainers d [] = (None, d)"
| "stopContainers d (wordPressContainer # rest) =
     (case ContainerStop d wordPressContainer of
        (Some err, d1) \<Rightarrow> (Some err, d1)
      | (None, d1) \<Rightarrow> stopContainers d1 rest)"

definition stopWordPress :: "site \<Rightarrow> dockerClient \<Rightarrow> error option \<times> dockerClient" where
  "stopWordPress s d = stopContainers d (getWordPressContainers s)"

section \<open>Predicates and example sites used in the statements\<close>

text \<open>
  A site name is an ordinary path element when it is not empty, has no slash and is
  neither \<open>.\<close> nor \<open>..\<close>.
\<close>

definition ordinaryElem :: "string \<Rightarrow> bool" where
  "ordinaryElem n = (n \<noteq> [] \<and> CHR ''/'' \<notin> set n \<and> n \<noteq> ''.'' \<and> n \<noteq> ''..'')"

text \<open>
  The database block of an environment list as the specification words it: with the
  embedded database the mode flag and no remote-database variable; without it no mode
  flag and exactly the four connection variables \<open>WORDPRESS_DB_...\<close>, the host derived
  from the site name.
\<close>

definition hasDatabaseBlock :: "settings \<Rightarrow> bool \<Rightarrow> string list \<Rightarrow> bool" where
  "hasDatabaseBlock st usingSQLite env =
     (if usingSQLite
      then ''KANA_SQLITE=true'' \<in> set env \<and> filter (prefix ''WORDPRESS_DB_'') env = []
      else ''KANA_SQLITE=true'' \<notin> set env \<and>
           filter (prefix ''WORDPRESS_DB_'') env =
             [''WORDPRESS_DB_HOST=kana-'' @ Name st @ ''-database'',
              ''WORDPRESS_DB_USER=wordpress'',
              ''WORDPRESS_DB_PASSWORD=wordpress'',
              ''WORDPRESS_DB_NAME=wordpress''])"

text \<open>The two pieces of the environment list that the proofs name.\<close>

definition databaseBlock :: "settings \<Rightarrow> bool \<Rightarrow> string list" where
  "databaseBlock st usingSQLite =
     (if usingSQLite then [''KANA_SQLITE=true'']
      else [''WORDPRESS_DB_HOST=kana-'' @ Name st @ ''-database'',
            ''WORDPRESS_DB_USER=wordpress'',
            ''WORDPRESS_DB_PASSWORD=wordpress'',
            ''WORDPRESS_DB_NAME=wordpress'',
            ''WORDPRESS_ADMIN_USER=admin''])"

definition extraConfigOf :: "settings \<Rightarrow> string" where
  "extraConfigOf st =
     ''WORDPRESS_CONFIG_EXTRA=define( 'WP_ENVIRONMENT_TYPE', '' @ [CHR 0x27] @ Environment st @
     [CHR 0x27] @ '' );'' @ (if ScriptDebug st then ''define( 'SCRIPT_DEBUG', true );'' else [])"

text \<open>
  The site \<open>acme\<close>, of type \<open>site\<close>, on the embedded database, with every optional flag
  off, on a host where every call succeeds and no application container is running.
\<close>

definition exampleSettings :: settings where
  "exampleSettings =
     \<lparr>Name = ''acme'', Type = ''site'',
      SiteDirectory = ''/home/dev/.config/kana/sites/acme'',
      WorkingDirectory = ''/home/dev/acme'',
      IsNamedSite = False, SiteDomain = ''acme.sites.kana.sh'', PHP = ''8.1'',
      Environment = ''local'', AutomaticLogin = False, WPDebug = False,
      ScriptDebug = False, UpdateInterval = 7\<rparr>"

definition exampleSite :: site where
  "exampleSite =
     \<lparr>Settings = exampleSettings, DefaultType = ''site'',
      isUsingSQLite = (\<lambda>st. Inr True),
      GetSiteLink = (\<lambda>st. Inr []),
      MkdirAll = (\<lambda>path. None),
      OverrideType = (\<lambda>st t. Inr (st\<lparr>Type := t\<rparr>)),
      ContainerGetMounts = (\<lambda>n. []),
      EnsureImage = (\<lambda>image interval. None),
      ContainerRunAndClean = (\<lambda>c interactive. (0, ''Success'', None)),
      EnsureNetwork = (\<lambda>n. None),
      getDirectories = Inr (''/home/dev/acme'', ''/home/dev/.config/kana/sites/acme/database''),
      getDatabaseContainer = (\<lambda>dir cs. cs),
      startContainer = (\<lambda>c a b. None),
      verifyDatabase = None\<rparr>"

text \<open>The same site on a remote database.\<close>

definition mysqlSite :: site where
  "mysqlSite = exampleSite\<lparr>isUsingSQLite := (\<lambda>st. Inr False)\<rparr>"

text \<open>The same site as a plugin, as a theme, and as plugins named \<open>..\<close> and \<open>../..\<close>.\<close>

definition pluginSite :: site where
  "pluginSite = exampleSite\<lparr>Settings := exampleSettings\<lparr>Type := ''plugin''\<rparr>\<rparr>"

definition themeSite :: site where
  "themeSite = exampleSite\<lparr>Settings := exampleSettings\<lparr>Type := ''theme''\<rparr>\<rparr>"

definition dotdotSite :: site where
  "dotdotSite = exampleSite\<lparr>Settings := exampleSettings\<lparr>Name := ''..'', Type := ''plugin''\<rparr>\<rparr>"

definition climbingSite :: site where
  "climbingSite = exampleSite\<lparr>Settings := exampleSettings\<lparr>Name := ''../..'', Type := ''plugin''\<rparr>\<rparr>"

text \<open>The same site with automatic login and debugging on, and with no environment name.\<close>

definition debugSite :: site where
  "debugSite = exampleSite\<lparr>Settings := exampleSettings\<lparr>AutomaticLogin := True, WPDebug := True\<rparr>\<rparr>"

definition bareSite :: site where
  "bareSite = exampleSite\<lparr>Settings := exampleSettings\<lparr>Environment := []\<rparr>\<rparr>"

text \<open>
  The same site where the check for the embedded database fails and the database
  container is built; and where the command container ends with an error.
\<close>

definition exampleDatabaseContainer :: "string \<Rightarrow> containerConfig" where
  "exampleDatabaseContainer databaseDir =
     \<lparr>ContainerName = ''kana-acme-database'', Image = ''mariadb:11'', NetworkName = ''kana'',
      HostName = ''kana-acme-database'', Command = [],
      Env = [''MARIADB_ROOT_PASSWORD=password'', ''MARIADB_DATABASE=wordpress'',
             ''MARIADB_USER=wordpress'', ''MARIADB_PASSWORD=wordpress''],
      Labels = Map.empty(''kana.site'' \<mapsto> ''acme''),
      Volumes = [\<lparr>MountType = TypeBind, Source = databaseDir, Target = ''/var/lib/mysql''\<rparr>]\<rparr>"

definition brokenCheckSite :: site where
  "brokenCheckSite =
     exampleSite\<lparr>isUsingSQLite := (\<lambda>st. Inl (Error ''stat wp-content/database: permission denied'')),
                 getDatabaseContainer := (\<lambda>dir cs. cs @ [exampleDatabaseContainer dir])\<rparr>"

definition failingCommandSite :: site where
  "failingCommandSite =
     exampleSite\<lparr>ContainerRunAndClean :=
       (\<lambda>c interactive. (1, ''Error: plugin not installed'', Some (Error ''exit status 1'')))\<rparr>"

text \<open>An engine with no container, and one with a container of the site and one of another.\<close>

definition emptyEngine :: dockerClient where
  "emptyEngine = \<lparr>existing = [], engineError = (\<lambda>n. None), stopCalls = []\<rparr>"

definition busyEngine :: dockerClient where
  "busyEngine =
     \<lparr>existing = [''kana-acme-wordpress'', ''kana-other-wordpress''],
      engineError = (\<lambda>n. None), stopCalls = []\<rparr>"

section \<open>Properties of the availability guard\<close>

text \<open>
  Once the loop is entered with the counter below the maximum, every way out of it is an
  error: a failed listing call returns its error, a successful one goes round again, and
  the round in which the counter reaches the maximum returns the fixed error.
\<close>

lemma retryLoop_never_succeeds:
  "retries < maxR \<Longrightarrow> fst (retryLoop h maxR sleepD retries err t) \<noteq> None"
proof (induction h maxR sleepD retries err t rule: retryLoop.induct)
  case (1 h maxR sleepD retries err t)
  show ?case
  proof (cases "retries + 1 = maxR")
    case True
    with "1.prems" show ?thesis
      by (simp add: retryLoop.simps [of h maxR sleepD retries])
  next
    case False
    with "1.prems" have lt: "retries + 1 < maxR" by simp
    show ?thesis
    proof (cases "ContainerList h (listCalls t) \<noteq> None")
      case True
      with "1.prems" False show ?thesis
        by (simp add: retryLoop.simps [of h maxR sleepD retries])
    next
      case up: False
      from "1.prems" have le: "retries \<le> maxR" by simp
      from "1.IH" [OF le False _ lt] up
      have "fst (retryLoop h maxR sleepD (retries + 1) (ContainerList h (listCalls t))
                  (t\<lparr>sleeps := sleeps t @ [sleepD], listCalls := Suc (listCalls t)\<rparr>)) \<noteq> None"
        by simp
      with "1.prems" False up show ?thesis
        by (simp add: retryLoop.simps [of h maxR sleepD retries])
    qed
  qed
qed

lemma guard_mac_never_succeeds:
  "GOOS h = ''darwin'' \<Longrightarrow> ContainerList h 0 \<noteq> None \<Longrightarrow> fst (ensureDockerIsAvailable h) \<noteq> None"
  using retryLoop_never_succeeds [of 0 maxRetries h sleepDuration]
  by (simp add: ensureDockerIsAvailable_def Let_def maxRetries_def unableToStart_def)

text \<open>
  Claim C1. The claim: when a retry listing call succeeds before the maximum attempt
  count, the guard returns success at that attempt, without further retries and without
  the exhaustion error. The code does not: on the Mac whose engine answers the first
  retry (and every later one), the guard sleeps and lists eleven times and then returns
  the exhaustion error \<open>unable to start Docker for Mac\<close>.
\<close>

theorem C1_guard_reachable_engine_reported_unreachable:
  "ensureDockerIsAvailable macUpAfterLaunch =
     (Some (Error ''error: unable to start Docker for Mac''),
      \<lparr>listCalls = 12, sleeps = [5, 5, 5, 5, 5, 5, 5, 5, 5, 5, 5], launches = 1,
       printed = [''Docker doesn't appear to be running. Trying to start Docker.'',
                  ''Restarting Docker is taking too long. We seem to have hit an error'']\<rparr>)"
  by (simp add: ensureDockerIsAvailable_def macUpAfterLaunch_def Let_def maxRetries_def
      sleepDuration_def unableToStart_def retryLoop.simps)

text \<open>
  Claim C2. The claim: when the engine never becomes reachable, the guard retries the
  listing call every 5 seconds, exactly 12 times, and then returns the engine-unreachable
  error. The code does not: on the Mac whose engine never answers, the guard sleeps once,
  lists once (the second listing call of the run) and returns that call's error.
\<close>

theorem C2_guard_gives_up_after_one_retry:
  "ensureDockerIsAvailable macNeverUp =
     (Some (Error ''Cannot connect to the Docker daemon''),
      \<lparr>listCalls = 2, sleeps = [5], launches = 1,
       printed = [''Docker doesn't appear to be running. Trying to start Docker.'']\<rparr>)"
  by (simp add: ensureDockerIsAvailable_def macNeverUp_def Let_def maxRetries_def
      sleepDuration_def unableToStart_def retryLoop.simps)

section \<open>Properties of the mount planner\<close>

subsection \<open>Joining a name onto the content directory\<close>

lemma splitSlash_no_slash: "CHR ''/'' \<notin> set n \<Longrightarrow> splitSlash n = [n]"
  by (induction n) auto

lemma cleanElems_no_dotdot:
  "''..'' \<notin> set es \<Longrightarrow> cleanElems r out es = out @ filter (\<lambda>e. e \<noteq> [] \<and> e \<noteq> ''.'') es"
  by (induction es arbitrary: out) auto

lemma Join_plugins:
  "''..'' \<notin> set (splitSlash n) \<Longrightarrow>
   filepath_Join [''/var/www/html/wp-content'', ''plugins'', n] =
     ''/var/www/html/wp-content/'' @
       strings_Join (''plugins'' # filter (\<lambda>e. e \<noteq> [] \<and> e \<noteq> ''.'') (splitSlash n)) ''/''"
  by (simp add: filepath_Join_def Clean_def cleanElems_no_dotdot)

lemma Join_themes:
  "''..'' \<notin> set (splitSlash n) \<Longrightarrow>
   filepath_Join [''/var/www/html/wp-content'', ''themes'', n] =
     ''/var/www/html/wp-content/'' @
       strings_Join (''themes'' # filter (\<lambda>e. e \<noteq> [] \<and> e \<noteq> ''.'') (splitSlash n)) ''/''"
  by (simp add: filepath_Join_def Clean_def cleanElems_no_dotdot)

lemma ordinaryElem_split: "ordinaryElem n \<Longrightarrow> splitSlash n = [n]"
  by (simp add: ordinaryElem_def splitSlash_no_slash)

lemma Join_plugins_ordinary:
  assumes "ordinaryElem n"
  shows "filepath_Join [''/var/www/html/wp-content'', ''plugins'', n] =
           ''/var/www/html/wp-content/plugins/'' @ n"
proof -
  have s: "splitSlash n = [n]" using assms by (rule ordinaryElem_split)
  have "''..'' \<notin> set (splitSlash n)" using assms by (auto simp: s ordinaryElem_def)
  from Join_plugins [OF this] show ?thesis using assms by (simp add: s ordinaryElem_def)
qed

lemma Join_themes_ordinary:
  assumes "ordinaryElem n"
  shows "filepath_Join [''/var/www/html/wp-content'', ''themes'', n] =
           ''/var/www/html/wp-content/themes/'' @ n"
proof -
  have s: "splitSlash n = [n]" using assms by (rule ordinaryElem_split)
  have "''..'' \<notin> set (splitSlash n)" using assms by (auto simp: s ordinaryElem_def)
  from Join_themes [OF this] show ?thesis using assms by (simp add: s ordinaryElem_def)
qed

lemma mounts_of_examples:
  "snd (getWordPressMounts exampleSite ''/home/dev/acme'') = None"
  "snd (getWordPressMounts pluginSite ''/home/dev/acme'') = None"
  "snd (getWordPressMounts themeSite ''/home/dev/acme'') = None"
  by (simp_all add: getWordPressMounts_def exampleSite_def pluginSite_def themeSite_def
      exampleSettings_def)

subsection \<open>The mounts by artifact type\<close>

text \<open>
  Claim C5, as amended. The claim: for every site, type \<open>plugin\<close> and name N give a mount
  whose target ends in \<open>wp-content/plugins/N\<close> and whose source is the working directory,
  type \<open>theme\<close> one whose target ends in \<open>wp-content/themes/N\<close>, and type \<open>site\<close> no mount
  beyond the two binds that are always there. The target is \<open>filepath.Join\<close> of the
  content directory, \<open>plugins\<close> or \<open>themes\<close>, and N, which cleans the path, so the claim
  holds for the names that cleaning leaves alone. Amended: whenever planning succeeds for
  a site whose name N is an ordinary path element (not empty, no slash, neither \<open>.\<close> nor
  \<open>..\<close>), the mount list is the two binds (application directory on \<open>/var/www/html\<close>,
  site directory on \<open>/Site\<close>), followed for type \<open>plugin\<close> by the bind of the working
  directory on \<open>/var/www/html/wp-content/plugins/N\<close>, for type \<open>theme\<close> by the bind of the
  working directory on \<open>/var/www/html/wp-content/themes/N\<close>, and by nothing for any other
  type.
\<close>

theorem C5_mounts_by_artifact_type:
  assumes "ordinaryElem (Name (Settings s))" and "snd (getWordPressMounts s appDir) = None"
  shows "fst (getWordPressMounts s appDir) =
     [\<lparr>MountType = TypeBind, Source = appDir, Target = ''/var/www/html''\<rparr>,
      \<lparr>MountType = TypeBind, Source = SiteDirectory (Settings s), Target = ''/Site''\<rparr>] @
     (if Type (Settings s) = ''plugin'' then
        [\<lparr>MountType = TypeBind, Source = WorkingDirectory (Settings s),
          Target = ''/var/www/html/wp-content/plugins/'' @ Name (Settings s)\<rparr>]
      else if Type (Settings s) = ''theme'' then
        [\<lparr>MountType = TypeBind, Source = WorkingDirectory (Settings s),
          Target = ''/var/www/html/wp-content/themes/'' @ Name (Settings s)\<rparr>]
      else [])"
  using assms(2)
  by (auto simp: getWordPressMounts_def Let_def Join_plugins_ordinary [OF assms(1)]
      Join_themes_ordinary [OF assms(1)] split: option.splits)

text \<open>The plugin \<open>acme\<close>, the theme \<open>acme\<close> and the site \<open>acme\<close>.\<close>

theorem C5_mounts_by_artifact_type_witness:
  "fst (getWordPressMounts pluginSite ''/home/dev/acme'') =
     [\<lparr>MountType = TypeBind, Source = ''/home/dev/acme'', Target = ''/var/www/html''\<rparr>,
      \<lparr>MountType = TypeBind, Source = ''/home/dev/.config/kana/sites/acme'', Target = ''/Site''\<rparr>,
      \<lparr>MountType = TypeBind, Source = ''/home/dev/acme'',
        Target = ''/var/www/html/wp-content/plugins/acme''\<rparr>] \<and>
   fst (getWordPressMounts themeSite ''/home/dev/acme'') =
     [\<lparr>MountType = TypeBind, Source = ''/home/dev/acme'', Target = ''/var/www/html''\<rparr>,
      \<lparr>MountType = TypeBind, Source = ''/home/dev/.config/kana/sites/acme'', Target = ''/Site''\<rparr>,
      \<lparr>MountType = TypeBind, Source = ''/home/dev/acme'',
        Target = ''/var/www/html/wp-content/themes/acme''\<rparr>] \<and>
   fst (getWordPressMounts exampleSite ''/home/dev/acme'') =
     [\<lparr>MountType = TypeBind, Source = ''/home/dev/acme'', Target = ''/var/www/html''\<rparr>,
      \<lparr>MountType = TypeBind, Source = ''/home/dev/.config/kana/sites/acme'', Target = ''/Site''\<rparr>]"
proof -
  have n: "ordinaryElem (Name (Settings pluginSite))" "ordinaryElem (Name (Settings themeSite))"
    "ordinaryElem (Name (Settings exampleSite))"
    by (simp_all add: ordinaryElem_def pluginSite_def themeSite_def exampleSite_def exampleSettings_def)
  from C5_mounts_by_artifact_type [OF n(1) mounts_of_examples(2)]
       C5_mounts_by_artifact_type [OF n(2) mounts_of_examples(3)]
       C5_mounts_by_artifact_type [OF n(3) mounts_of_examples(1)]
  show ?thesis
    by (simp add: pluginSite_def themeSite_def exampleSite_def exampleSettings_def)
qed

text \<open>
  The claim as it was stated fails for the plugin named \<open>..\<close>: planning succeeds, and the
  third target is the content directory itself, which does not end in
  \<open>wp-content/plugins/..\<close>.
\<close>

theorem C5_target_of_dotdot_plugin:
  "Type (Settings dotdotSite) = ''plugin'' \<and> Name (Settings dotdotSite) = ''..'' \<and>
   snd (getWordPressMounts dotdotSite ''/home/dev/acme'') = None \<and>
   map Target (fst (getWordPressMounts dotdotSite ''/home/dev/acme'')) =
     [''/var/www/html'', ''/Site'', ''/var/www/html/wp-content''] \<and>
   \<not> suffix (''wp-content/plugins/'' @ Name (Settings dotdotSite))
       (Target (last (fst (getWordPressMounts dotdotSite ''/home/dev/acme''))))"
  by (simp add: getWordPressMounts_def dotdotSite_def exampleSite_def exampleSettings_def
      filepath_Join_def Clean_def suffix_to_prefix)

text \<open>
  Claim C6, as amended. The claim: whenever planning succeeds, the targets of the
  returned mounts are pairwise distinct. Since the third target is a cleaned path, a name
  with \<open>..\<close> elements can bring it back onto \<open>/var/www/html\<close>. Amended: whenever planning
  succeeds for a site whose name has no \<open>..\<close> element between its slashes, the targets
  of the returned mounts are pairwise distinct.
\<close>

theorem C6_targets_distinct:
  assumes "''..'' \<notin> set (splitSlash (Name (Settings s)))"
      and "snd (getWordPressMounts s appDir) = None"
  shows "distinct (map Target (fst (getWordPressMounts s appDir)))"
  using assms(2)
  by (auto simp: getWordPressMounts_def Let_def Join_plugins [OF assms(1)]
      Join_themes [OF assms(1)] simp del: strings_Join.simps split: option.splits if_splits)

theorem C6_targets_distinct_witness:
  "distinct (map Target (fst (getWordPressMounts pluginSite ''/home/dev/acme''))) \<and>
   distinct (map Target (fst (getWordPressMounts themeSite ''/home/dev/acme''))) \<and>
   distinct (map Target (fst (getWordPressMounts exampleSite ''/home/dev/acme'')))"
proof -
  have n: "''..'' \<notin> set (splitSlash (Name (Settings pluginSite)))"
    "''..'' \<notin> set (splitSlash (Name (Settings themeSite)))"
    "''..'' \<notin> set (splitSlash (Name (Settings exampleSite)))"
    by (simp_all add: pluginSite_def themeSite_def exampleSite_def exampleSettings_def)
  from C6_targets_distinct [OF n(1) mounts_of_examples(2)]
       C6_targets_distinct [OF n(2) mounts_of_examples(3)]
       C6_targets_distinct [OF n(3) mounts_of_examples(1)]
  show ?thesis by simp
qed

text \<open>
  The claim as it was stated fails for the plugin named \<open>../..\<close>: planning succeeds and
  the first and the third mount have the target \<open>/var/www/html\<close>.
\<close>

theorem C6_targets_of_climbing_plugin:
  "snd (getWordPressMounts climbingSite ''/home/dev/acme'') = None \<and>
   map Target (fst (getWordPressMounts climbingSite ''/home/dev/acme'')) =
     [''/var/www/html'', ''/Site'', ''/var/www/html''] \<and>
   \<not> distinct (map Target (fst (getWordPressMounts climbingSite ''/home/dev/acme'')))"
  by (simp add: getWordPressMounts_def climbingSite_def exampleSite_def exampleSettings_def
      filepath_Join_def Clean_def)

section \<open>Properties of the environment lists\<close>

subsection \<open>What the two builders return\<close>

lemma getWordPressContainer_Env:
  assumes "isUsingSQLite s (Settings s) = Inr usingSQLite"
  shows "getWordPressContainer s appVolumes appContainers =
           appContainers @ [last (getWordPressContainer s appVolumes appContainers)]"
    and "Env (last (getWordPressContainer s appVolumes appContainers)) =
           [''IS_KANA_ENVIRONMENT=true''] @ databaseBlock (Settings s) usingSQLite @
           (if AutomaticLogin (Settings s) then [''KANA_ADMIN_LOGIN=true''] else []) @
           (if WPDebug (Settings s) then [''WORDPRESS_DEBUG=1''] else []) @
           [extraConfigOf (Settings s)]"
    and "Volumes (last (getWordPressContainer s appVolumes appContainers)) = appVolumes"
  using assms
  by (simp_all add: getWordPressContainer_def Let_def databaseBlock_def extraConfigOf_def)

lemma WPCliContainer_Inr:
  assumes "WPCliContainer s0 command = Inr c"
  obtains s dir usingSQLite where
    "overrideTypes s0 (ContainerGetMounts s0 (''kana-'' @ Name (Settings s0) @ ''-wordpress'')) = Inr s"
    "getWordPressDirectory s = Inr dir"
    "getWordPressMounts s dir = (Volumes c, None)"
    "isUsingSQLite s (Settings s) = Inr usingSQLite"
    "Env c = [''IS_KANA_ENVIRONMENT=true''] @ databaseBlock (Settings s) usingSQLite @
           (if AutomaticLogin (Settings s) then [''KANA_ADMIN_LOGIN=true''] else [])"
    "Command c = [''wp'', ''--path=/var/www/html''] @ command"
  using assms
  by (auto simp: WPCliContainer_def Let_def databaseBlock_def
      split: sum.splits prod.splits option.splits if_splits)

lemma overrideTypes_exampleSite:
  "overrideTypes exampleSite (ContainerGetMounts exampleSite n) = Inr exampleSite"
  by (simp add: exampleSite_def)

lemma WPCliContainer_exampleSite:
  "WPCliContainer exampleSite [''plugin'', ''list''] =
     Inr \<lparr>ContainerName = ''kana-acme-wordpress_cli'', Image = ''wordpress:cli-php8.1'',
          NetworkName = ''kana'', HostName = ''kana-acme-wordpress_cli'',
          Command = [''wp'', ''--path=/var/www/html'', ''plugin'', ''list''],
          Env = [''IS_KANA_ENVIRONMENT=true'', ''KANA_SQLITE=true''],
          Labels = Map.empty(''kana.site'' \<mapsto> ''acme''),
          Volumes = [\<lparr>MountType = TypeBind, Source = ''/home/dev/acme'', Target = ''/var/www/html''\<rparr>,
                     \<lparr>MountType = TypeBind, Source = ''/home/dev/.config/kana/sites/acme'',
                       Target = ''/Site''\<rparr>]\<rparr>"
  by (simp add: WPCliContainer_def getWordPressDirectory_def getWordPressMounts_def Let_def
      exampleSite_def exampleSettings_def)

lemma WPCliContainer_exampleSite_Inr:
  "WPCliContainer exampleSite [''plugin'', ''list''] =
     Inr (projr (WPCliContainer exampleSite [''plugin'', ''list'']))"
  by (simp add: WPCliContainer_exampleSite)

subsection \<open>The order of the application container's environment\<close>

text \<open>
  Claim C3, as amended. The claim: the environment list of the application container is
  the base marker, then the database block, then the optional variables, each of which
  (automatic login, debug flags, environment-type declaration) is in the list exactly
  when its flag is set; so equal descriptors give equal lists. The environment-type
  declaration has no flag: it is appended always. Amended: whenever the check for the
  embedded database answers, the application container is appended to the list given,
  and its environment list is, in this order, the marker \<open>IS_KANA_ENVIRONMENT=true\<close>,
  the database block, \<open>KANA_ADMIN_LOGIN=true\<close> exactly when automatic login is set,
  \<open>WORDPRESS_DEBUG=1\<close> exactly when the debug flag is set, and always, as last entry,
  the \<open>WORDPRESS_CONFIG_EXTRA\<close> declaration of the environment type, which carries the
  \<open>SCRIPT_DEBUG\<close> definition exactly when the script-debug flag is set. The list is a
  function of the settings and of the answer of the check, so equal descriptors give
  equal lists.
\<close>

theorem C3_environment_order:
  assumes "isUsingSQLite s (Settings s) = Inr usingSQLite"
  shows "getWordPressContainer s appVolumes appContainers =
           appContainers @ [last (getWordPressContainer s appVolumes appContainers)] \<and>
         Env (last (getWordPressContainer s appVolumes appContainers)) =
           [''IS_KANA_ENVIRONMENT=true''] @
           (if usingSQLite then [''KANA_SQLITE=true'']
            else [''WORDPRESS_DB_HOST=kana-'' @ Name (Settings s) @ ''-database'',
                  ''WORDPRESS_DB_USER=wordpress'',
                  ''WORDPRESS_DB_PASSWORD=wordpress'',
                  ''WORDPRESS_DB_NAME=wordpress'',
                  ''WORDPRESS_ADMIN_USER=admin'']) @
           (if AutomaticLogin (Settings s) then [''KANA_ADMIN_LOGIN=true''] else []) @
           (if WPDebug (Settings s) then [''WORDPRESS_DEBUG=1''] else []) @
           [''WORDPRESS_CONFIG_EXTRA=define( 'WP_ENVIRONMENT_TYPE', '' @ [CHR 0x27] @
              Environment (Settings s) @ [CHR 0x27] @ '' );'' @
            (if ScriptDebug (Settings s) then ''define( 'SCRIPT_DEBUG', true );'' else [])] \<and>
         (''KANA_ADMIN_LOGIN=true'' \<in> set (Env (last (getWordPressContainer s appVolumes appContainers)))
            = AutomaticLogin (Settings s)) \<and>
         (''WORDPRESS_DEBUG=1'' \<in> set (Env (last (getWordPressContainer s appVolumes appContainers)))
            = WPDebug (Settings s))"
  using assms
  by (simp add: getWordPressContainer_def Let_def)

text \<open>Automatic login and debugging both on: both variables, in this order, after the
  marker and the database block.\<close>

theorem C3_environment_order_witness:
  "isUsingSQLite debugSite (Settings debugSite) = Inr True \<and>
   Env (last (getWordPressContainer debugSite [] [])) =
     [''IS_KANA_ENVIRONMENT=true'', ''KANA_SQLITE=true'', ''KANA_ADMIN_LOGIN=true'',
      ''WORDPRESS_DEBUG=1'',
      ''WORDPRESS_CONFIG_EXTRA=define( 'WP_ENVIRONMENT_TYPE', 'local' );'']"
proof -
  have h: "isUsingSQLite debugSite (Settings debugSite) = Inr True"
    by (simp add: debugSite_def exampleSite_def)
  from C3_environment_order [OF h, of "[]" "[]"] h show ?thesis
    by (simp add: debugSite_def exampleSite_def exampleSettings_def)
qed

text \<open>
  The claim as it was stated fails for the site with no flag set and no environment
  name: the environment-type declaration is in the list all the same.
\<close>

theorem C3_environment_type_without_flag:
  "\<not> AutomaticLogin (Settings bareSite) \<and> \<not> WPDebug (Settings bareSite) \<and>
   \<not> ScriptDebug (Settings bareSite) \<and> Environment (Settings bareSite) = [] \<and>
   map Env (getWordPressContainer bareSite [] []) =
     [[''IS_KANA_ENVIRONMENT=true'', ''KANA_SQLITE=true'',
       ''WORDPRESS_CONFIG_EXTRA=define( 'WP_ENVIRONMENT_TYPE', '' @ [CHR 0x27, CHR 0x27] @ '' );'']]"
  by (simp add: getWordPressContainer_def Let_def bareSite_def exampleSite_def exampleSettings_def)

subsection \<open>The database block\<close>

text \<open>
  Claim C4. With the embedded database selected, the environment list holds the mode
  flag \<open>KANA_SQLITE=true\<close> and no remote-database variable; without it, the list holds
  no mode flag and exactly the four connection variables \<open>WORDPRESS_DB_HOST\<close> (the
  database container of the site name), \<open>WORDPRESS_DB_USER\<close>, \<open>WORDPRESS_DB_PASSWORD\<close>
  and \<open>WORDPRESS_DB_NAME\<close> with their fixed values. This holds of the application
  container and of every command container that \<open>WPCli\<close> builds: \<open>s\<close> is the site with
  the settings in force when the environment is composed (in \<open>WPCli\<close>, after the loop
  over the mounts). The branch of the four connection variables also sets
  \<open>WORDPRESS_ADMIN_USER=admin\<close>, which is no database variable.
\<close>

theorem C4_database_block:
  assumes "isUsingSQLite s (Settings s) = Inr usingSQLite"
  shows "hasDatabaseBlock (Settings s) usingSQLite
           (Env (last (getWordPressContainer s appVolumes appContainers))) \<and>
         (overrideTypes s0 (ContainerGetMounts s0 (''kana-'' @ Name (Settings s0) @ ''-wordpress'')) = Inr s \<and>
          WPCliContainer s0 command = Inr c \<longrightarrow>
            hasDatabaseBlock (Settings s) usingSQLite (Env c))"
proof (intro conjI impI)
  show "hasDatabaseBlock (Settings s) usingSQLite
           (Env (last (getWordPressContainer s appVolumes appContainers)))"
    by (simp add: getWordPressContainer_Env(2) [OF assms] databaseBlock_def extraConfigOf_def
        hasDatabaseBlock_def)
next
  assume a: "overrideTypes s0 (ContainerGetMounts s0 (''kana-'' @ Name (Settings s0) @ ''-wordpress'')) = Inr s \<and>
          WPCliContainer s0 command = Inr c"
  then obtain s' b where
    o: "overrideTypes s0 (ContainerGetMounts s0 (''kana-'' @ Name (Settings s0) @ ''-wordpress'')) = Inr s'"
    and q: "isUsingSQLite s' (Settings s') = Inr b"
    and e: "Env c = [''IS_KANA_ENVIRONMENT=true''] @ databaseBlock (Settings s') b @
           (if AutomaticLogin (Settings s') then [''KANA_ADMIN_LOGIN=true''] else [])"
    by (blast elim: WPCliContainer_Inr)
  from o a have s: "s' = s" by simp
  with q assms have b: "b = usingSQLite" by simp
  show "hasDatabaseBlock (Settings s) usingSQLite (Env c)"
    using e s b by (simp add: databaseBlock_def hasDatabaseBlock_def)
qed

text \<open>The site \<open>acme\<close> on the embedded database (both containers) and on a remote one.\<close>

theorem C4_database_block_witness:
  "hasDatabaseBlock exampleSettings True (Env (last (getWordPressContainer exampleSite [] []))) \<and>
   hasDatabaseBlock exampleSettings True
     (Env (projr (WPCliContainer exampleSite [''plugin'', ''list'']))) \<and>
   hasDatabaseBlock exampleSettings False (Env (last (getWordPressContainer mysqlSite [] []))) \<and>
   filter (prefix ''WORDPRESS_DB_'') (Env (last (getWordPressContainer mysqlSite [] []))) =
     [''WORDPRESS_DB_HOST=kana-acme-database'', ''WORDPRESS_DB_USER=wordpress'',
      ''WORDPRESS_DB_PASSWORD=wordpress'', ''WORDPRESS_DB_NAME=wordpress'']"
proof -
  have st: "Settings exampleSite = exampleSettings" "Settings mysqlSite = exampleSettings"
    by (simp_all add: exampleSite_def mysqlSite_def)
  have h1: "isUsingSQLite exampleSite (Settings exampleSite) = Inr True"
    by (simp add: exampleSite_def)
  have h2: "isUsingSQLite mysqlSite (Settings mysqlSite) = Inr False"
    by (simp add: exampleSite_def mysqlSite_def)
  have o: "overrideTypes exampleSite
             (ContainerGetMounts exampleSite (''kana-'' @ Name (Settings exampleSite) @ ''-wordpress'')) =
           Inr exampleSite"
    by (rule overrideTypes_exampleSite)
  note a = C4_database_block [OF h1, of "[]" "[]" exampleSite "[''plugin'', ''list'']"
             "projr (WPCliContainer exampleSite [''plugin'', ''list''])"]
  note b = C4_database_block [OF h2, of "[]" "[]" exampleSite "[''plugin'', ''list'']"
             "projr (WPCliContainer exampleSite [''plugin'', ''list''])"]
  from a o WPCliContainer_exampleSite_Inr
  have 1: "hasDatabaseBlock exampleSettings True (Env (last (getWordPressContainer exampleSite [] [])))"
    and 2: "hasDatabaseBlock exampleSettings True
              (Env (projr (WPCliContainer exampleSite [''plugin'', ''list''])))"
    by (simp_all only: st simp_thms)
  from b have 3: "hasDatabaseBlock exampleSettings False (Env (last (getWordPressContainer mysqlSite [] [])))"
    by (simp only: st)
  from 3 have 4: "filter (prefix ''WORDPRESS_DB_'') (Env (last (getWordPressContainer mysqlSite [] []))) =
     [''WORDPRESS_DB_HOST=kana-acme-database'', ''WORDPRESS_DB_USER=wordpress'',
      ''WORDPRESS_DB_PASSWORD=wordpress'', ''WORDPRESS_DB_NAME=wordpress'']"
    by (simp add: hasDatabaseBlock_def exampleSettings_def)
  from 1 2 3 4 show ?thesis by blast
qed

subsection \<open>The command container against the application container\<close>

text \<open>
  Claim C7, as amended. The claim: the environment list and the mount list of the
  command container are composed by the logic of the application container, so both
  containers see the same marker, database block, optional variables and mounts.
  \<open>WPCli\<close> composes its environment in lines of its own, which stop after the
  automatic-login variable. Amended: for every site for which \<open>WPCli\<close> builds its
  container, with \<open>s\<close> the site as the loop over the mounts leaves it, the environment
  list of the command container is the marker, the database block and the
  automatic-login variable of the application container of \<open>s\<close>, that is, the
  application container's list without its last entries \<open>WORDPRESS_DEBUG=1\<close> (when the
  debug flag is set) and \<open>WORDPRESS_CONFIG_EXTRA\<close>; and its mounts are the list that
  \<open>getWordPressMounts\<close>, the planner of the application container, returns for the
  directory of \<open>getWordPressDirectory\<close>.
\<close>

theorem C7_command_container_environment:
  assumes "overrideTypes s0 (ContainerGetMounts s0 (''kana-'' @ Name (Settings s0) @ ''-wordpress'')) = Inr s"
      and "WPCliContainer s0 command = Inr c"
  shows "Env (last (getWordPressContainer s appVolumes appContainers)) =
           Env c @
           (if WPDebug (Settings s) then [''WORDPRESS_DEBUG=1''] else []) @
           [''WORDPRESS_CONFIG_EXTRA=define( 'WP_ENVIRONMENT_TYPE', '' @ [CHR 0x27] @
              Environment (Settings s) @ [CHR 0x27] @ '' );'' @
            (if ScriptDebug (Settings s) then ''define( 'SCRIPT_DEBUG', true );'' else [])] \<and>
         map_sum id (getWordPressMounts s) (getWordPressDirectory s) = Inr (Volumes c, None)"
proof -
  from assms(2) obtain s' dir b where
    o: "overrideTypes s0 (ContainerGetMounts s0 (''kana-'' @ Name (Settings s0) @ ''-wordpress'')) = Inr s'"
    and d: "getWordPressDirectory s' = Inr dir"
    and m: "getWordPressMounts s' dir = (Volumes c, None)"
    and q: "isUsingSQLite s' (Settings s') = Inr b"
    and e: "Env c = [''IS_KANA_ENVIRONMENT=true''] @ databaseBlock (Settings s') b @
           (if AutomaticLogin (Settings s') then [''KANA_ADMIN_LOGIN=true''] else [])"
    by (rule WPCliContainer_Inr)
  from o assms(1) have s: "s' = s" by simp
  from q s have q': "isUsingSQLite s (Settings s) = Inr b" by simp
  have "Env (last (getWordPressContainer s appVolumes appContainers)) =
           Env c @ (if WPDebug (Settings s) then [''WORDPRESS_DEBUG=1''] else []) @
           [extraConfigOf (Settings s)]"
    using e s by (simp add: getWordPressContainer_Env(2) [OF q'])
  moreover have "map_sum id (getWordPressMounts s) (getWordPressDirectory s) = Inr (Volumes c, None)"
    using d m s by simp
  ultimately show ?thesis by (simp add: extraConfigOf_def)
qed

theorem C7_command_container_environment_witness:
  "Env (last (getWordPressContainer exampleSite [] [])) =
     Env (projr (WPCliContainer exampleSite [''plugin'', ''list''])) @
     [''WORDPRESS_CONFIG_EXTRA=define( 'WP_ENVIRONMENT_TYPE', 'local' );''] \<and>
   fst (getWordPressMounts exampleSite ''/home/dev/acme'') =
     Volumes (projr (WPCliContainer exampleSite [''plugin'', ''list'']))"
proof -
  have o: "overrideTypes exampleSite
             (ContainerGetMounts exampleSite (''kana-'' @ Name (Settings exampleSite) @ ''-wordpress'')) =
           Inr exampleSite"
    by (rule overrideTypes_exampleSite)
  have d: "getWordPressDirectory exampleSite = Inr ''/home/dev/acme''"
    by (simp add: getWordPressDirectory_def exampleSite_def exampleSettings_def)
  from C7_command_container_environment [OF o WPCliContainer_exampleSite_Inr, of "[]" "[]"] d
  show ?thesis by (simp add: exampleSite_def exampleSettings_def)
qed

text \<open>
  The claim as it was stated fails for the site \<open>acme\<close> with every optional flag off: the
  command container gets two variables, the application container three.
\<close>

theorem C7_environments_differ:
  "map_sum id Env (WPCliContainer exampleSite [''plugin'', ''list'']) =
     Inr [''IS_KANA_ENVIRONMENT=true'', ''KANA_SQLITE=true''] \<and>
   map Env (getWordPressContainer exampleSite [] []) =
     [[''IS_KANA_ENVIRONMENT=true'', ''KANA_SQLITE=true'',
       ''WORDPRESS_CONFIG_EXTRA=define( 'WP_ENVIRONMENT_TYPE', 'local' );'']]"
  by (simp add: WPCliContainer_exampleSite)
     (simp add: getWordPressContainer_def Let_def exampleSite_def exampleSettings_def)

section \<open>Properties of start, stop and the command wrapper\<close>

subsection \<open>Stopping a site\<close>

lemma ContainerStop_ok:
  assumes "engineError d n = None"
  shows "ContainerStop d n =
           (None, d\<lparr>existing := filter (\<lambda>x. x \<noteq> n) (existing d), stopCalls := stopCalls d @ [n]\<rparr>)"
proof -
  have r: "removeAll n xs = filter (\<lambda>x. x \<noteq> n) xs" for xs :: "string list"
    by (induction xs) auto
  have i: "n \<notin> set xs \<Longrightarrow> filter (\<lambda>x. x \<noteq> n) xs = xs" for xs :: "string list"
    by (induction xs) auto
  show ?thesis using assms
    by (cases "n \<in> set (existing d)") (simp_all add: ContainerStop_def Let_def r i)
qed

lemma stopContainers_all:
  "\<forall>n \<in> set names. engineError d n = None \<Longrightarrow>
   stopContainers d names =
     (None, d\<lparr>existing := filter (\<lambda>x. x \<notin> set names) (existing d),
              stopCalls := stopCalls d @ names\<rparr>)"
proof (induction names arbitrary: d)
  case Nil
  then show ?case by simp
next
  case (Cons n names)
  have c: "(\<lambda>x. x \<noteq> n \<and> x \<notin> set names) = (\<lambda>x. x \<notin> set names \<and> x \<noteq> n)" by auto
  from Cons.prems show ?case
    by (simp add: ContainerStop_ok Cons.IH c)
qed

text \<open>
  Claim C8. \<open>stopWordPress\<close> goes through the four container names of the site
  (database, wordpress, phpmyadmin, mailpit), calls \<open>ContainerStop\<close> on each, in this
  order, and returns no error, whichever of the four containers exist: as long as the
  engine answers, the four calls are made, no container of the four names is left, and
  the other containers are untouched.
\<close>

theorem C8_stop_tolerates_absence:
  assumes "\<forall>n \<in> set (getWordPressContainers s). engineError d n = None"
  shows "getWordPressContainers s =
           [''kana-'' @ Name (Settings s) @ ''-database'', ''kana-'' @ Name (Settings s) @ ''-wordpress'',
            ''kana-'' @ Name (Settings s) @ ''-phpmyadmin'', ''kana-'' @ Name (Settings s) @ ''-mailpit''] \<and>
         fst (stopWordPress s d) = None \<and>
         stopCalls (snd (stopWordPress s d)) = stopCalls d @ getWordPressContainers s \<and>
         existing (snd (stopWordPress s d)) =
           filter (\<lambda>x. x \<notin> set (getWordPressContainers s)) (existing d)"
  using stopContainers_all [OF assms]
  by (simp add: stopWordPress_def) (simp add: getWordPressContainers_def)

text \<open>No container at all; and one container of the site beside one of another site.\<close>

theorem C8_stop_tolerates_absence_witness:
  "fst (stopWordPress exampleSite emptyEngine) = None \<and>
   stopCalls (snd (stopWordPress exampleSite emptyEngine)) =
     [''kana-acme-database'', ''kana-acme-wordpress'', ''kana-acme-phpmyadmin'', ''kana-acme-mailpit''] \<and>
   fst (stopWordPress exampleSite busyEngine) = None \<and>
   existing (snd (stopWordPress exampleSite busyEngine)) = [''kana-other-wordpress'']"
proof -
  have h: "\<forall>n \<in> set (getWordPressContainers exampleSite). engineError emptyEngine n = None"
    "\<forall>n \<in> set (getWordPressContainers exampleSite). engineError busyEngine n = None"
    by (simp_all add: emptyEngine_def busyEngine_def)
  from C8_stop_tolerates_absence [OF h(1)] C8_stop_tolerates_absence [OF h(2)]
  show ?thesis
    by (simp add: exampleSite_def exampleSettings_def emptyEngine_def busyEngine_def)
qed

subsection \<open>Starting a site whose database check fails\<close>

lemma startContainers_all_ok:
  "\<forall>c \<in> set cs. startContainer s c True True = None \<Longrightarrow>
   startContainers s started cs = (None, started @ cs)"
  by (induction cs arbitrary: started) auto

text \<open>
  Claim C9. When the check for the embedded database returns an error,
  \<open>getWordPressContainer\<close> returns the container list it was given, and reports
  nothing. So \<open>startWordPress\<close> goes on with the containers of \<open>getDatabaseContainer\<close>
  alone: when the network, the directories, the mounts, the start of these containers
  and the database check succeed, it returns no error, having started these containers
  and no application container.
\<close>

theorem C9_sqlite_error_skips_application:
  assumes "isUsingSQLite s (Settings s) = Inl err"
  shows "getWordPressContainer s appVolumes appContainers = appContainers \<and>
         (EnsureNetwork s ''kana'' = None \<and> getDirectories s = Inr (appDir, databaseDir) \<and>
          snd (getWordPressMounts s appDir) = None \<and>
          (\<forall>c \<in> set (getDatabaseContainer s databaseDir []). startContainer s c True True = None) \<and>
          verifyDatabase s = None \<longrightarrow>
            startWordPress s = (None, getDatabaseContainer s databaseDir []))"
proof (intro conjI impI)
  show g: "getWordPressContainer s appVolumes appContainers = appContainers"
    for appVolumes appContainers
    using assms by (simp add: getWordPressContainer_def)
  assume a: "EnsureNetwork s ''kana'' = None \<and> getDirectories s = Inr (appDir, databaseDir) \<and>
          snd (getWordPressMounts s appDir) = None \<and>
          (\<forall>c \<in> set (getDatabaseContainer s databaseDir []). startContainer s c True True = None) \<and>
          verifyDatabase s = None"
  then have "startContainers s [] (getDatabaseContainer s databaseDir []) =
               (None, getDatabaseContainer s databaseDir [])"
    using startContainers_all_ok [of "getDatabaseContainer s databaseDir []" s "[]"] by simp
  with a show "startWordPress s = (None, getDatabaseContainer s databaseDir [])"
    by (cases "getWordPressMounts s appDir") (simp add: startWordPress_def g Let_def)
qed

text \<open>The site \<open>acme\<close> with a failing check: the start succeeds with the database
  container alone.\<close>

theorem C9_sqlite_error_skips_application_witness:
  "getWordPressContainer brokenCheckSite [] [] = [] \<and>
   startWordPress brokenCheckSite =
     (None, [exampleDatabaseContainer ''/home/dev/.config/kana/sites/acme/database''])"
proof -
  have h: "isUsingSQLite brokenCheckSite (Settings brokenCheckSite) =
             Inl (Error ''stat wp-content/database: permission denied'')"
    by (simp add: brokenCheckSite_def)
  have g: "getDatabaseContainer brokenCheckSite ''/home/dev/.config/kana/sites/acme/database'' [] =
             [exampleDatabaseContainer ''/home/dev/.config/kana/sites/acme/database'']"
    by (simp add: brokenCheckSite_def)
  have a: "EnsureNetwork brokenCheckSite ''kana'' = None \<and>
           getDirectories brokenCheckSite =
             Inr (''/home/dev/acme'', ''/home/dev/.config/kana/sites/acme/database'') \<and>
           snd (getWordPressMounts brokenCheckSite ''/home/dev/acme'') = None \<and>
           (\<forall>c \<in> set (getDatabaseContainer brokenCheckSite
                        ''/home/dev/.config/kana/sites/acme/database'' []).
              startContainer brokenCheckSite c True True = None) \<and>
           verifyDatabase brokenCheckSite = None"
    by (simp add: brokenCheckSite_def exampleSite_def exampleSettings_def getWordPressMounts_def)
  from C9_sqlite_error_skips_application [OF h, of "[]" "[]" "''/home/dev/acme''"
         "''/home/dev/.config/kana/sites/acme/database''"] a g
  show ?thesis by simp
qed

subsection \<open>The result of the command wrapper\<close>

text \<open>
  Claim C10. Whenever \<open>WPCli\<close> reaches \<open>ContainerRunAndClean\<close> and that call returns
  an error, \<open>WPCli\<close> returns the status code of the call, the empty output and the
  error, whatever output the call captured; when the call returns no error, \<open>WPCli\<close>
  returns its status code and its output as they are.
\<close>

theorem C10_WPCli_result:
  assumes "WPCliContainer s command = Inr container"
      and "ContainerRunAndClean s container interactive = (code, output, err)"
  shows "WPCli s command interactive = (code, (if err = None then output else []), err)"
  using assms by (cases err) (simp_all add: WPCli_def)

theorem C10_WPCli_result_witness:
  "WPCli exampleSite [''plugin'', ''list''] False = (0, ''Success'', None) \<and>
   WPCli failingCommandSite [''plugin'', ''list''] False = (1, [], Some (Error ''exit status 1''))"
proof -
  have c1: "WPCliContainer exampleSite [''plugin'', ''list''] =
             Inr (projr (WPCliContainer exampleSite [''plugin'', ''list'']))"
    by (rule WPCliContainer_exampleSite_Inr)
  have c2: "WPCliContainer failingCommandSite [''plugin'', ''list''] =
             Inr (projr (WPCliContainer failingCommandSite [''plugin'', ''list'']))"
    by (simp add: WPCliContainer_def getWordPressDirectory_def getWordPressMounts_def Let_def
        failingCommandSite_def exampleSite_def exampleSettings_def)
  have r1: "ContainerRunAndClean exampleSite
              (projr (WPCliContainer exampleSite [''plugin'', ''list''])) False =
              (0, ''Success'', None)"
    by (simp add: exampleSite_def)
  have r2: "ContainerRunAndClean failingCommandSite
              (projr (WPCliContainer failingCommandSite [''plugin'', ''list''])) False =
              (1, ''Error: plugin not installed'', Some (Error ''exit status 1''))"
    by (simp add: failingCommandSite_def exampleSite_def)
  from C10_WPCli_result [OF c1 r1] C10_WPCli_result [OF c2 r2] show ?thesis by simp
qed

end
